theory Spec2Isabelle
  imports Main "HOL-Library.Sublist" "HOL-Library.Word" "HOL-Library.Multiset"
begin

section \<open>Python strings\<close>

text \<open>
  A Python \<open>str\<close> is a sequence of Unicode code points. The sources contain literals
  outside ASCII and use the Unicode-aware classes of \<open>re\<close> and \<open>str.strip\<close>, so a string is
  modelled as a list of code points. \<open>S\<close> turns an ASCII literal into such a list.
\<close>

type_synonym pystr = "nat list"

definition S :: "string \<Rightarrow> pystr" where
  "S cs = map of_char cs"

text \<open>
  The characters for which \<open>str.isspace\<close> holds; the class \<open>\s\<close> of \<open>re\<close> on a \<open>str\<close> pattern
  and the default argument of \<open>str.strip\<close> are both this set.
\<close>

definition is_space :: "nat \<Rightarrow> bool" where
  "is_space c \<longleftrightarrow> (9 \<le> c \<and> c \<le> 13) \<or> (28 \<le> c \<and> c \<le> 32) \<or> c = 133 \<or> c = 160
     \<or> c = 5760 \<or> (8192 \<le> c \<and> c \<le> 8202) \<or> c = 8232 \<or> c = 8233 \<or> c = 8239
     \<or> c = 8287 \<or> c = 12288"

text \<open>
  \<open>split_at sep s\<close> cuts \<open>s\<close> at the leftmost occurrence of \<open>sep\<close>: the text before it and the
  text after it. It is the search step shared by \<open>in\<close>, \<open>str.split\<close> and \<open>str.replace\<close>.
\<close>

fun split_at :: "pystr \<Rightarrow> pystr \<Rightarrow> (pystr \<times> pystr) option" where
  "split_at sep [] = (if sep = [] then Some ([], []) else None)"
| "split_at sep (c # cs) =
     (if prefix sep (c # cs) then Some ([], drop (length sep) (c # cs))
      else (case split_at sep cs of None \<Rightarrow> None | Some (b, a) \<Rightarrow> Some (c # b, a)))"

text \<open>\<open>sub in s\<close> on strings.\<close>

definition py_in :: "pystr \<Rightarrow> pystr \<Rightarrow> bool" where
  "py_in sub s \<longleftrightarrow> split_at sub s \<noteq> None"

lemma split_at_shorter:
  "split_at sep s = Some (b, a) \<Longrightarrow> sep \<noteq> [] \<Longrightarrow> length a < length s"
proof (induction s arbitrary: b a)
  case Nil
  then show ?case by simp
next
  case (Cons c cs)
  show ?case
  proof (cases "prefix sep (c # cs)")
    case True
    with Cons.prems show ?thesis by auto
  next
    case False
    with Cons.prems obtain b' where "split_at sep cs = Some (b', a)"
      by (auto split: option.splits)
    with Cons.IH Cons.prems(2) show ?thesis by fastforce
  qed
qed

text \<open>
  \<open>s.split(sep)\<close> with a non-empty separator. (An empty separator raises \<open>ValueError\<close>; the
  sources only split on the literals \<open>'filename='\<close> and \<open>';'\<close>, and the model returns the
  empty list there, which no call reaches.)
\<close>

function py_split :: "pystr \<Rightarrow> pystr \<Rightarrow> pystr list" where
  "py_split sep s =
     (if sep = [] then []
      else (case split_at sep s of
              None \<Rightarrow> [s]
            | Some (b, a) \<Rightarrow> b # py_split sep a))"
  by pat_completeness auto
termination
  by (relation "measure (\<lambda>(sep, s). length s)") (auto dest: split_at_shorter)

declare py_split.simps [simp del]

text \<open>
  \<open>s.replace(old, new)\<close>: the occurrences of \<open>old\<close> are found from left to right without
  overlap. An empty \<open>old\<close> puts \<open>new\<close> before every character and at the end.
\<close>

function py_replace :: "pystr \<Rightarrow> pystr \<Rightarrow> pystr \<Rightarrow> pystr" where
  "py_replace old new s =
     (if old = [] then new @ concat (map (\<lambda>c. c # new) s)
      else (case split_at old s of
              None \<Rightarrow> s
            | Some (b, a) \<Rightarrow> b @ new @ py_replace old new a))"
  by pat_completeness auto
termination
  by (relation "measure (\<lambda>(old, new, s). length s)") (auto dest: split_at_shorter)

declare py_replace.simps [simp del]

text \<open>\<open>s.strip(chars)\<close> and \<open>s.strip()\<close>.\<close>

definition strip_where :: "(nat \<Rightarrow> bool) \<Rightarrow> pystr \<Rightarrow> pystr" where
  "strip_where P s = rev (dropWhile P (rev (dropWhile P s)))"

definition py_strip_chars :: "pystr \<Rightarrow> pystr \<Rightarrow> pystr" where
  "py_strip_chars chars s = strip_where (\<lambda>c. c \<in> set chars) s"

definition py_strip :: "pystr \<Rightarrow> pystr" where
  "py_strip s = strip_where is_space s"

section \<open>URL extraction (\<open>OSSClient.extract_urls\<close>)\<close>

text \<open>
  The pattern is \<^verbatim>\<open>https?://[^\s<>"')\]]+(?:\.[^\s<>"')\]]+)*\<close>. \<open>url_char\<close> is its
  character class.
\<close>

definition url_char :: "nat \<Rightarrow> bool" where
  "url_char c \<longleftrightarrow> \<not> is_space c \<and> c \<notin> set (S ''<>\"')]'')"

text \<open>
  The trailing group \<^verbatim>\<open>(?:\.[...]+)*\<close>, greedy: as long as a dot followed by at least one
  class character is next, take the dot and the whole run after it.
\<close>

function dot_groups :: "pystr \<Rightarrow> pystr" where
  "dot_groups s =
     (case s of
        [] \<Rightarrow> []
      | c # cs \<Rightarrow>
          if c = 46 \<and> takeWhile url_char cs \<noteq> []
          then c # takeWhile url_char cs @ dot_groups (dropWhile url_char cs)
          else [])"
  by pat_completeness auto
termination
  by (relation "measure length") (auto simp: less_Suc_eq_le length_dropWhile_le)

declare dot_groups.simps [simp del]

text \<open>
  A match of the pattern at the start of \<open>s\<close> for one spelling of the scheme: the scheme,
  \<open>://\<close>, the longest non-empty run of class characters, then the trailing groups. The regex
  engine tries the longest run first and nothing after it can fail, so the first attempt is
  the match.
\<close>

definition match_scheme :: "pystr \<Rightarrow> pystr \<Rightarrow> pystr option" where
  "match_scheme scheme s =
     (if prefix (scheme @ S ''://'') s then
        (let rest = drop (length scheme + 3) s;
             run = takeWhile url_char rest
         in if run = [] then None
            else Some (scheme @ S ''://'' @ run @ dot_groups (dropWhile url_char rest)))
      else None)"

text \<open>\<open>s?\<close> is greedy: the engine tries \<open>https\<close> first and falls back to \<open>http\<close>.\<close>

definition match_here :: "pystr \<Rightarrow> pystr option" where
  "match_here s =
     (case match_scheme (S ''https'') s of
        Some m \<Rightarrow> Some m
      | None \<Rightarrow> match_scheme (S ''http'') s)"

lemma match_here_nonempty: "match_here s = Some m \<Longrightarrow> m \<noteq> []"
  by (auto simp: match_here_def match_scheme_def S_def Let_def split: option.splits if_splits)

text \<open>
  \<open>re.findall\<close>: scan from the left; at a match, record it and go on behind it; otherwise
  move one character on. The pattern has no capturing group, so the whole match is recorded.
\<close>

function findall :: "pystr \<Rightarrow> pystr list" where
  "findall s =
     (if s = [] then []
      else (case match_here s of
              Some m \<Rightarrow> m # findall (drop (length m) s)
            | None \<Rightarrow> findall (tl s)))"
  by pat_completeness auto
termination
proof (relation "measure length")
  show "wf (measure length)" by simp
next
  fix s m :: pystr
  assume "s \<noteq> []" and "match_here s = Some m"
  then have "m \<noteq> []" by (simp add: match_here_nonempty)
  with \<open>s \<noteq> []\<close> show "(drop (length m) s, s) \<in> measure length"
    by (cases s; cases m) auto
next
  fix s :: pystr
  assume "s \<noteq> []"
  then show "(tl s, s) \<in> measure length" by (cases s) auto
qed

declare findall.simps [simp del]

text \<open>The loop of \<open>extract_urls\<close> over the matches, with its \<open>seen\<close> set and result list.\<close>

fun dedup_loop :: "pystr list \<Rightarrow> pystr set \<Rightarrow> pystr list \<Rightarrow> pystr list" where
  "dedup_loop [] seen unique_urls = unique_urls"
| "dedup_loop (url # urls) seen unique_urls =
     (if url \<notin> seen then dedup_loop urls (insert url seen) (unique_urls @ [url])
      else dedup_loop urls seen unique_urls)"

definition extract_urls :: "pystr \<Rightarrow> pystr list" where
  "extract_urls text = dedup_loop (findall text) {} []"

section \<open>Paths and identifiers (library functions used by \<open>oss_client.py\<close>)\<close>

text \<open>\<open>s.rfind(c)\<close> for a single character: the last index of \<open>c\<close>, or \<open>-1\<close>.\<close>

definition rfind :: "nat \<Rightarrow> pystr \<Rightarrow> int" where
  "rfind c s =
     (if c \<in> set s then int (length s) - 1 - int (length (takeWhile (\<lambda>x. x \<noteq> c) (rev s)))
      else - 1)"

text \<open>\<open>os.path.basename\<close> (POSIX): everything behind the last slash.\<close>

definition basename :: "pystr \<Rightarrow> pystr" where
  "basename p = drop (nat (rfind 47 p + 1)) p"

text \<open>
  \<open>os.path.splitext\<close> (POSIX): the extension starts at the last dot of the last path
  component, unless only dots stand between the start of that component and this dot.
\<close>

definition splitext :: "pystr \<Rightarrow> pystr \<times> pystr" where
  "splitext p =
     (let sepIndex = rfind 47 p;
          dotIndex = rfind 46 p
      in if dotIndex > sepIndex
            \<and> filter (\<lambda>c. c \<noteq> 46) (drop (nat (sepIndex + 1)) (take (nat dotIndex) p)) \<noteq> []
         then (take (nat dotIndex) p, drop (nat dotIndex) p)
         else (p, []))"

text \<open>
  \<open>uuid.uuid4().hex\<close>: the 128-bit value of the identifier written with 32 lower-case
  hexadecimal digits. The identifiers themselves are drawn by the environment.
\<close>

definition hex_digit :: "nat \<Rightarrow> nat" where
  "hex_digit d = (if d < 10 then 48 + d else 87 + d)"

fun hex_of :: "nat \<Rightarrow> nat \<Rightarrow> pystr" where
  "hex_of 0 x = []"
| "hex_of (Suc n) x = hex_of n (x div 16) @ [hex_digit (x mod 16)]"

definition uuid_hex :: "128 word \<Rightarrow> pystr" where
  "uuid_hex u = hex_of 32 (unat u)"

section \<open>The storage client (\<open>OSSClient\<close>)\<close>

subsection \<open>Exceptions, results, environment\<close>

text \<open>
  The exceptions the handlers of \<open>oss_client.py\<close> tell apart: those of \<open>requests\<close>, the
  missing-credentials error of \<open>botocore\<close>, and every other \<open>Exception\<close>. The string is
  \<open>str(e)\<close>. All of them are instances of \<open>Exception\<close>, which is what the handlers
  catch; \<open>KeyboardInterrupt\<close> and \<open>SystemExit\<close> are outside the model.
\<close>

datatype exn = RequestException pystr | NoCredentialsError | OtherException pystr

fun exn_str :: "exn \<Rightarrow> pystr" where
  "exn_str (RequestException m) = m"
| "exn_str NoCredentialsError = S ''Unable to locate credentials''"
| "exn_str (OtherException m) = m"

text \<open>
  The literals of the source that are not ASCII, as code points:
  \<open>msg_file_missing\<close> (``file does not exist''), \<open>msg_auth_failed\<close> (``key authentication
  failed''), \<open>msg_download_failed\<close> (``download failed: '') and \<open>msg_already_oss\<close> (``already
  an OSS address''). The default of \<open>result.get('error', ...)\<close> in \<open>process_single_url\<close> is
  never used, since every failure dict has the key \<open>'error'\<close>.
\<close>

definition msg_file_missing :: pystr where
  "msg_file_missing = [25991, 20214, 19981, 23384, 22312]"

definition msg_auth_failed :: pystr where
  "msg_auth_failed = [23494, 38053, 35748, 35777, 22833, 36133]"

definition msg_download_failed :: pystr where
  "msg_download_failed = [19979, 36733, 22833, 36133, 58, 32]"

definition msg_already_oss :: pystr where
  "msg_already_oss = [24050, 26159, 32, 79, 83, 83, 32, 22320, 22336]"

text \<open>
  The dict returned by the upload functions: \<open>{'success': True, 'url', 'object_key'}\<close> or
  \<open>{'success': False, 'error'}\<close>, the latter with \<open>'original_url'\<close> when it comes from
  \<open>download_and_upload\<close>.
\<close>

datatype up_result = UpOk pystr pystr | UpError pystr "pystr option"

text \<open>The dict returned for one URL by \<open>process_single_url\<close>.\<close>

record conv_result =
  original :: pystr
  converted :: pystr
  status :: pystr
  message :: "pystr option"
  error :: "pystr option"

text \<open>
  What \<open>requests.get\<close> gives: an exception, or a response with its status code, its headers
  and its body, where reading the body may raise as well.
\<close>

datatype http_outcome =
  HttpRaises exn
| HttpResponse nat "pystr \<Rightarrow> pystr option" "exn + nat list"

text \<open>
  The collaborators outside the repository are parameters: the configured endpoint, the HTTP
  client, \<open>urlparse(url).path\<close> (\<open>None\<close> when \<open>urlparse\<close> raises \<open>ValueError\<close>, with its text
  in \<open>url_error\<close>), \<open>unquote\<close>, the text of the error of \<open>raise_for_status\<close>, the S3 upload
  (\<open>None\<close> when it succeeds) and presigning, the names \<open>tempfile\<close> picks, and the identifiers
  \<open>uuid4\<close> draws.
\<close>

record env =
  endpoint :: pystr
  http_get :: "pystr \<Rightarrow> http_outcome"
  http_error_text :: "nat \<Rightarrow> pystr \<Rightarrow> pystr"
  url_path :: "pystr \<Rightarrow> pystr option"
  url_error :: "pystr \<Rightarrow> pystr"
  unquote :: "pystr \<Rightarrow> pystr"
  s3_put :: "pystr \<Rightarrow> nat list \<Rightarrow> exn option"
  presign :: "pystr \<Rightarrow> exn + pystr"
  mktemp :: "nat \<Rightarrow> pystr"
  uuid4 :: "nat \<Rightarrow> 128 word"

text \<open>
  What the client changes outside itself: the requests sent (\<open>fetch_log\<close>, one URL per
  \<open>requests.get\<close>), the uploads sent (\<open>upload_log\<close>, one object key per upload call), the local
  files, and how many identifiers and temporary names have been drawn.
\<close>

record world =
  fetch_log :: "pystr list"
  upload_log :: "pystr list"
  files :: "pystr \<Rightarrow> nat list option"
  uuid_count :: nat
  tmp_count :: nat

text \<open>\<open>uuid.uuid4().hex[:8]\<close>: draw an identifier, keep its first eight digits.\<close>

definition fresh_hex8 :: "env \<Rightarrow> world \<Rightarrow> pystr \<times> world" where
  "fresh_hex8 e w =
     (take 8 (uuid_hex (uuid4 e (uuid_count w))), w\<lparr>uuid_count := Suc (uuid_count w)\<rparr>)"

subsection \<open>Uploads\<close>

text \<open>
  The \<open>try\<close> block shared by \<open>upload_file\<close> and \<open>upload_from_stream\<close>: upload under the key,
  presign, and turn an exception into a failure dict.
\<close>

fun upload_error :: "exn \<Rightarrow> up_result" where
  "upload_error NoCredentialsError = UpError msg_auth_failed None"
| "upload_error ex = UpError (exn_str ex) None"

definition store_object :: "env \<Rightarrow> world \<Rightarrow> pystr \<Rightarrow> nat list \<Rightarrow> up_result \<times> world" where
  "store_object e w object_key content =
     (let w' = w\<lparr>upload_log := upload_log w @ [object_key]\<rparr>
      in case s3_put e object_key content of
           Some ex \<Rightarrow> (upload_error ex, w')
         | None \<Rightarrow>
             (case presign e object_key of
                Inl ex \<Rightarrow> (upload_error ex, w')
              | Inr url \<Rightarrow> (UpOk url object_key, w')))"

definition upload_file :: "env \<Rightarrow> world \<Rightarrow> pystr \<Rightarrow> pystr option \<Rightarrow> up_result \<times> world" where
  "upload_file e w file_path object_key =
     (case files w file_path of
        None \<Rightarrow> (UpError msg_file_missing None, w)
      | Some content \<Rightarrow>
          (case object_key of
             Some k \<Rightarrow> store_object e w k content
           | None \<Rightarrow>
               (let original_name = basename file_path;
                    (name, ext) = splitext original_name;
                    (hex8, w1) = fresh_hex8 e w
                in store_object e w1 (name @ S ''_'' @ hex8 @ ext) content)))"

definition upload_from_stream :: "env \<Rightarrow> world \<Rightarrow> nat list \<Rightarrow> pystr \<Rightarrow> up_result \<times> world" where
  "upload_from_stream e w file_stream filename =
     (let (name, ext) = splitext filename;
          (hex8, w1) = fresh_hex8 e w
      in store_object e w1 (name @ S ''_'' @ hex8 @ ext) file_stream)"

subsection \<open>File names (\<open>_extract_filename\<close>)\<close>

definition ext_map :: "(pystr \<times> pystr) list" where
  "ext_map =
     [(S ''image/jpeg'', S ''.jpg''),
      (S ''image/png'', S ''.png''),
      (S ''image/gif'', S ''.gif''),
      (S ''image/webp'', S ''.webp''),
      (S ''application/pdf'', S ''.pdf''),
      (S ''text/plain'', S ''.txt''),
      (S ''text/html'', S ''.html''),
      (S ''application/json'', S ''.json'')]"

text \<open>\<open>headers.get(key, '')\<close>.\<close>

definition header :: "(pystr \<Rightarrow> pystr option) \<Rightarrow> pystr \<Rightarrow> pystr" where
  "header headers key = (case headers key of None \<Rightarrow> [] | Some v \<Rightarrow> v)"

text \<open>The argument of \<open>strip\<close> in \<open>_extract_filename\<close>: the double and the single quote.\<close>

definition quote_chars :: pystr where
  "quote_chars = [34, 39]"

text \<open>
  The two values \<open>_extract_filename\<close> computes from the headers: what stands behind the last
  \<open>filename=\<close> of \<open>Content-Disposition\<close>, without quotes at its ends, and the extension that
  \<open>ext_map\<close> has for the part of \<open>Content-Type\<close> before the first semicolon, \<open>.bin\<close> when
  it has none.
\<close>

definition cd_filename :: "(pystr \<Rightarrow> pystr option) \<Rightarrow> pystr" where
  "cd_filename headers =
     py_strip_chars quote_chars
       (last (py_split (S ''filename='') (header headers (S ''Content-Disposition''))))"

definition guess_ext :: "(pystr \<Rightarrow> pystr option) \<Rightarrow> pystr" where
  "guess_ext headers =
     (case map_of ext_map (hd (py_split (S '';'') (header headers (S ''Content-Type'')))) of
        Some x \<Rightarrow> x
      | None \<Rightarrow> S ''.bin'')"

definition extract_filename ::
  "env \<Rightarrow> world \<Rightarrow> pystr \<Rightarrow> (pystr \<Rightarrow> pystr option) \<Rightarrow> (exn + pystr) \<times> world" where
  "extract_filename e w url headers =
     (let content_disposition = header headers (S ''Content-Disposition'')
      in if py_in (S ''filename='') content_disposition \<and> cd_filename headers \<noteq> [] then
           (Inr (cd_filename headers), w)
         else
           (case url_path e url of
              None \<Rightarrow> (Inl (OtherException (url_error e url)), w)
            | Some parsed_path \<Rightarrow>
                (let path = unquote e parsed_path;
                     filename = basename path
                 in if filename \<noteq> [] \<and> 46 \<in> set filename then (Inr filename, w)
                    else
                      (let ext = guess_ext headers;
                           (hex8, w1) = fresh_hex8 e w
                       in (Inr (S ''file_'' @ hex8 @ ext), w1)))))"

subsection \<open>Download and conversion of one URL\<close>

text \<open>The two \<open>except\<close> clauses of \<open>download_and_upload\<close>.\<close>

fun download_error :: "exn \<Rightarrow> pystr \<Rightarrow> up_result" where
  "download_error (RequestException m) url = UpError (msg_download_failed @ m) (Some url)"
| "download_error ex url = UpError (exn_str ex) (Some url)"

text \<open>
  \<open>download_and_upload\<close>: one GET, \<open>raise_for_status\<close> (an error for the codes 400 to 599),
  the file name, the body written to a temporary file whose suffix is the extension of that
  name, \<open>upload_file\<close> on that file with a generated key, and the removal of the file. An
  exception while the body is read leaves the temporary file behind, with what had been
  written; the model keeps it with empty contents.
\<close>

definition download_and_upload :: "env \<Rightarrow> world \<Rightarrow> pystr \<Rightarrow> up_result \<times> world" where
  "download_and_upload e w url =
     (let w1 = w\<lparr>fetch_log := fetch_log w @ [url]\<rparr>
      in case http_get e url of
           HttpRaises ex \<Rightarrow> (download_error ex url, w1)
         | HttpResponse code headers body \<Rightarrow>
             if 400 \<le> code \<and> code < 600 then
               (download_error (RequestException (http_error_text e code url)) url, w1)
             else
               (case extract_filename e w1 url headers of
                  (Inl ex, w2) \<Rightarrow> (download_error ex url, w2)
                | (Inr filename, w2) \<Rightarrow>
                    (let tmp_path = mktemp e (tmp_count w2) @ snd (splitext filename);
                         w3 = w2\<lparr>tmp_count := Suc (tmp_count w2)\<rparr>
                     in case body of
                          Inl ex \<Rightarrow>
                            (download_error ex url, w3\<lparr>files := (files w3)(tmp_path \<mapsto> [])\<rparr>)
                        | Inr content \<Rightarrow>
                            (let w4 = w3\<lparr>files := (files w3)(tmp_path \<mapsto> content)\<rparr>;
                                 (result, w5) = upload_file e w4 tmp_path None
                             in (result, w5\<lparr>files := (files w5)(tmp_path := None)\<rparr>)))))"

definition process_single_url :: "env \<Rightarrow> world \<Rightarrow> pystr \<Rightarrow> conv_result \<times> world" where
  "process_single_url e w url =
     (if py_in (endpoint e) url then
        (\<lparr>original = url, converted = url, status = S ''skipped'',
          message = Some msg_already_oss, error = None\<rparr>, w)
      else
        (case download_and_upload e w url of
           (UpOk oss_url object_key, w') \<Rightarrow>
             (\<lparr>original = url, converted = oss_url, status = S ''success'',
               message = None, error = None\<rparr>, w')
         | (UpError err original_url, w') \<Rightarrow>
             (\<lparr>original = url, converted = url, status = S ''failed'',
               message = None, error = Some err\<rparr>, w')))"

subsection \<open>The concurrent conversion (\<open>convert_urls_streaming\<close>)\<close>







section \<open>The web application (\<open>app.py\<close>)\<close>

subsection \<open>The task store\<close>

text \<open>
  Exceptions raised inside \<open>run_conversion\<close>: calling \<open>.get\<close> on a \<open>str\<close> is an
  \<open>AttributeError\<close>, indexing a \<open>str\<close> with \<open>'status'\<close> is a \<open>TypeError\<close>.
\<close>

datatype py_error = AttributeError | TypeError

text \<open>
  An element of the list \<open>task['urls']\<close> is what the code puts there: the plain URL strings
  that \<open>convert_url\<close> passes to \<open>update_task\<close>, or the dicts with the four keys
  \<open>'original_url'\<close>, \<open>'oss_url'\<close>, \<open>'status'\<close>, \<open>'status_text'\<close> that \<open>run_conversion\<close> appends.
\<close>

record url_info =
  original_url :: pystr
  oss_url :: pystr
  url_status :: pystr
  status_text :: pystr

datatype url_entry = UrlStr pystr | UrlInfo url_info

text \<open>
  A task dict. A key that is absent is \<open>None\<close>: the dict literal \<open>{}\<close> has no key, the dicts
  made by \<open>update_task\<close> have all four.
\<close>

record task =
  urls :: "url_entry list option"
  total :: "int option"
  completed :: "int option"
  converted_text :: "pystr option"

definition empty_dict :: task where
  "empty_dict = \<lparr>urls = None, total = None, completed = None, converted_text = None\<rparr>"

text \<open>
  The dicts are objects: \<open>tasks\<close> maps a task id to the address of its dict, \<open>heap\<close> holds the
  dict at each address, and \<open>next_addr\<close> is the first address not yet given out. A dict
  literal allocates. (The lists and the URL dicts inside a task are kept as values inside
  it.)
\<close>

record app_state =
  tasks :: "pystr \<Rightarrow> nat option"
  heap :: "nat \<Rightarrow> task"
  next_addr :: nat

definition init_state :: app_state where
  "init_state = \<lparr>tasks = (\<lambda>k. None), heap = (\<lambda>a. empty_dict), next_addr = 0\<rparr>"

definition alloc :: "app_state \<Rightarrow> task \<Rightarrow> nat \<times> app_state" where
  "alloc st d = (next_addr st, st\<lparr>heap := (heap st)(next_addr st := d), next_addr := Suc (next_addr st)\<rparr>)"

text \<open>What a reader finds under a task id: \<open>tasks.get(task_id)\<close>, dereferenced.\<close>

definition lookup_task :: "app_state \<Rightarrow> pystr \<Rightarrow> task option" where
  "lookup_task st task_id = (case tasks st task_id of None \<Rightarrow> None | Some a \<Rightarrow> Some (heap st a))"

text \<open>\<open>get_task\<close>: \<open>tasks.get(task_id, {})\<close>.\<close>

definition get_task :: "app_state \<Rightarrow> pystr \<Rightarrow> task" where
  "get_task st task_id = (case lookup_task st task_id of None \<Rightarrow> empty_dict | Some t \<Rightarrow> t)"

text \<open>\<open>d.update(kwargs)\<close>: the keys given replace those of \<open>d\<close>.\<close>

definition dict_update :: "task \<Rightarrow> task \<Rightarrow> task" where
  "dict_update d kwargs =
     \<lparr>urls = (case urls kwargs of None \<Rightarrow> urls d | Some v \<Rightarrow> Some v),
      total = (case total kwargs of None \<Rightarrow> total d | Some v \<Rightarrow> Some v),
      completed = (case completed kwargs of None \<Rightarrow> completed d | Some v \<Rightarrow> Some v),
      converted_text =
        (case converted_text kwargs of None \<Rightarrow> converted_text d | Some v \<Rightarrow> Some v)\<rparr>"

definition update_task :: "app_state \<Rightarrow> pystr \<Rightarrow> task \<Rightarrow> app_state" where
  "update_task st task_id kwargs =
     (let (a, st1) =
            (case tasks st task_id of
               Some a \<Rightarrow> (a, st)
             | None \<Rightarrow>
                 (let (a, st') = alloc st \<lparr>urls = Some [], total = Some 0, completed = Some 0,
                                           converted_text = Some []\<rparr>
                  in (a, st'\<lparr>tasks := (tasks st')(task_id \<mapsto> a)\<rparr>)))
      in st1\<lparr>heap := (heap st1)(a := dict_update (heap st1 a) kwargs)\<rparr>)"

subsection \<open>The background runner (\<open>run_conversion\<close>)\<close>

text \<open>
  The status texts of the source, as code points: \<open>text_converted\<close> (``conversion
  succeeded''), \<open>text_failed\<close> (``conversion failed''); the text for \<open>skipped\<close> is
  \<open>msg_already_oss\<close>.
\<close>

definition text_converted :: pystr where
  "text_converted = [36716, 25442, 25104, 21151]"

definition text_failed :: pystr where
  "text_failed = [36716, 25442, 22833, 36133]"

text \<open>The dict literal of \<open>run_conversion\<close> with its \<open>.get(status, status)\<close>.\<close>

definition status_text_of :: "pystr \<Rightarrow> pystr" where
  "status_text_of st =
     (case map_of [(S ''success'', text_converted),
                   (S ''failed'', text_failed),
                   (S ''skipped'', msg_already_oss)] st of
        Some t \<Rightarrow> t
      | None \<Rightarrow> st)"

text \<open>
  The \<open>for url_info in task.get('urls', [])\<close> loop: the first dict whose \<open>'original_url'\<close> is
  the URL gets the three new values and the loop ends with \<open>found = True\<close>; an element that is
  a \<open>str\<close> raises at \<open>url_info.get\<close>. The list is returned as the loop leaves it.
\<close>

fun find_and_update ::
  "url_entry list \<Rightarrow> pystr \<Rightarrow> pystr \<Rightarrow> pystr \<Rightarrow> pystr \<Rightarrow> (py_error + bool) \<times> url_entry list" where
  "find_and_update [] orig new_url st st_text = (Inr False, [])"
| "find_and_update (UrlStr s # rest) orig new_url st st_text =
     (Inl AttributeError, UrlStr s # rest)"
| "find_and_update (UrlInfo i # rest) orig new_url st st_text =
     (if original_url i = orig then
        (Inr True, UrlInfo (i\<lparr>oss_url := new_url, url_status := st, status_text := st_text\<rparr>) # rest)
      else
        (let (r, rest') = find_and_update rest orig new_url st st_text
         in (r, UrlInfo i # rest')))"

text \<open>
  \<open>sum(1 for u in task.get('urls', []) if u['status'] in ['success', 'failed', 'skipped'])\<close>;
  \<open>u['status']\<close> on a \<open>str\<close> raises.
\<close>

definition terminal :: "pystr \<Rightarrow> bool" where
  "terminal st \<longleftrightarrow> st \<in> set [S ''success'', S ''failed'', S ''skipped'']"

fun count_terminal :: "url_entry list \<Rightarrow> py_error + int" where
  "count_terminal [] = Inr 0"
| "count_terminal (UrlStr s # rest) = Inl TypeError"
| "count_terminal (UrlInfo i # rest) =
     (case count_terminal rest of
        Inl err \<Rightarrow> Inl err
      | Inr n \<Rightarrow> Inr ((if terminal (url_status i) then 1 else 0) + n))"

definition urls_or_empty :: "task \<Rightarrow> url_entry list" where
  "urls_or_empty d = (case urls d of None \<Rightarrow> [] | Some l \<Rightarrow> l)"

text \<open>
  The block under \<open>with tasks_lock\<close>. \<open>task\<close> is the dict stored under the id, or, when the id
  is not in \<open>tasks\<close>, the dict that the literal \<open>{}\<close> allocates; every assignment goes to that
  address. An exception leaves the block with what has been assigned so far.
\<close>

definition fold_result ::
  "app_state \<Rightarrow> pystr \<Rightarrow> pystr \<Rightarrow> pystr \<Rightarrow> pystr \<Rightarrow> pystr \<Rightarrow> pystr \<Rightarrow> py_error option \<times> app_state" where
  "fold_result st task_id orig new_url st_name st_text conv_text =
     (let (a, st0) = (case tasks st task_id of
                        Some a \<Rightarrow> (a, st)
                      | None \<Rightarrow> alloc st empty_dict);
          (found, l1) = find_and_update (urls_or_empty (heap st0 a)) orig new_url st_name st_text;
          st1 = (if urls (heap st0 a) = None then st0
                 else st0\<lparr>heap := (heap st0)(a := (heap st0 a)\<lparr>urls := Some l1\<rparr>)\<rparr>)
      in case found of
           Inl err \<Rightarrow> (Some err, st1)
         | Inr fnd \<Rightarrow>
             (let st2 = (if fnd then st1
                         else st1\<lparr>heap := (heap st1)(a := (heap st1 a)
                                \<lparr>urls := Some (urls_or_empty (heap st1 a) @
                                   [UrlInfo \<lparr>original_url = orig, oss_url = new_url,
                                             url_status = st_name, status_text = st_text\<rparr>])\<rparr>)\<rparr>)
              in case count_terminal (urls_or_empty (heap st2 a)) of
                   Inl err \<Rightarrow> (Some err, st2)
                 | Inr n \<Rightarrow>
                     (None, st2\<lparr>heap := (heap st2)(a := (heap st2 a)
                               \<lparr>completed := Some n, converted_text := Some conv_text\<rparr>)\<rparr>)))"

text \<open>
  The local variables of \<open>run_conversion\<close> and one turn of its loop for one result of the
  stream: the status text, the replacement in the local text when the status is \<open>success\<close>,
  then the locked block.
\<close>

record runner =
  run_text :: pystr
  url_mapping :: "pystr \<Rightarrow> pystr option"

definition runner_step ::
  "pystr \<Rightarrow> app_state \<times> runner \<Rightarrow> conv_result \<Rightarrow> py_error option \<times> app_state \<times> runner" where
  "runner_step task_id sr result =
     (let (st, r) = sr;
          original_url' = original result;
          oss_url' = converted result;
          status' = status result;
          status_text' = status_text_of status';
          r1 = (if status' = S ''success''
                then r\<lparr>url_mapping := (url_mapping r)(original_url' \<mapsto> oss_url'),
                       run_text := py_replace original_url' oss_url' (run_text r)\<rparr>
                else r);
          (err, st1) = fold_result st task_id original_url' oss_url' status' status_text'
                         (run_text r1)
      in (err, st1, r1))"

text \<open>
  The \<open>for result in ...\<close> loop: an exception ends the thread, and the results behind it are
  not folded in.
\<close>

fun run_loop ::
  "pystr \<Rightarrow> app_state \<times> runner \<Rightarrow> conv_result list \<Rightarrow> py_error option \<times> app_state \<times> runner" where
  "run_loop task_id sr [] = (None, sr)"
| "run_loop task_id sr (result # results) =
     (case runner_step task_id sr result of
        (Some err, sr') \<Rightarrow> (Some err, sr')
      | (None, sr') \<Rightarrow> run_loop task_id sr' results)"

definition run_conversion ::
  "pystr \<Rightarrow> pystr \<Rightarrow> app_state \<Rightarrow> conv_result list \<Rightarrow> py_error option \<times> app_state \<times> runner" where
  "run_conversion task_id text st results =
     run_loop task_id (st, \<lparr>run_text = text, url_mapping = (\<lambda>k. None)\<rparr>) results"

subsection \<open>The request handlers\<close>

text \<open>
  The JSON body of a request to \<open>/convert_url\<close>: without a usable \<open>'text'\<close>, or with the text.
  The answers: an error code with its message, or code 200 with \<open>task_id\<close>, \<open>total\<close>, \<open>urls\<close>
  and \<open>converted_text\<close>.
\<close>

datatype request = NoText | Text pystr

datatype response = Failure nat pystr | Started pystr int "pystr list" pystr

definition msg_need_text :: pystr where
  "msg_need_text = [35831, 25552, 20379, 35201, 36716, 25442, 30340, 25991, 26412]"

definition msg_empty_text :: pystr where
  "msg_empty_text = [25991, 26412, 19981, 33021, 20026, 31354]"

text \<open>
  \<open>convert_url\<close>, behind the login check. \<open>new_id\<close> is what \<open>create_task_id\<close> returns. The third
  component is the runner thread that is started: the task id and the text it closes over.
\<close>

definition convert_url ::
  "app_state \<Rightarrow> pystr \<Rightarrow> request \<Rightarrow> response \<times> app_state \<times> (pystr \<times> pystr) option" where
  "convert_url st new_id req =
     (case req of
        NoText \<Rightarrow> (Failure 400 msg_need_text, st, None)
      | Text text \<Rightarrow>
          if py_strip text = [] then (Failure 400 msg_empty_text, st, None)
          else
            (let urls' = extract_urls text;
                 total' = int (length urls')
             in if total' = 0 then (Started [] 0 [] text, st, None)
                else
                  (let task_id = new_id;
                       st1 = update_task st task_id
                               \<lparr>urls = Some (map UrlStr urls'), total = Some total',
                                completed = None, converted_text = Some text\<rparr>
                   in (Started task_id total' urls' text, st1, Some (task_id, text)))))"

section \<open>A concrete environment for the examples\<close>

text \<open>
  An environment in which every request and every upload succeeds. Its \<open>url_path\<close> takes what
  follows the host of a URL that has neither query nor fragment, its \<open>unquote\<close> is right for
  paths without escapes, and its first identifiers all start with the digits \<open>0123abcd\<close>.
\<close>

definition demo_url_path :: "pystr \<Rightarrow> pystr option" where
  "demo_url_path u =
     (case split_at (S ''://'') u of
        None \<Rightarrow> Some u
      | Some (scheme, rest) \<Rightarrow> Some (dropWhile (\<lambda>c. c \<noteq> 47) rest))"

definition demo_env :: env where
  "demo_env =
     \<lparr>endpoint = S ''http://nas2net.cn:4003'',
      http_get = (\<lambda>u. HttpResponse 200 (map_of [(S ''Content-Type'', S ''image/png'')]) (Inr [])),
      http_error_text = (\<lambda>code u. S ''error''),
      url_path = demo_url_path,
      url_error = (\<lambda>u. S ''Invalid URL''),
      unquote = (\<lambda>p. p),
      s3_put = (\<lambda>k content. None),
      presign = (\<lambda>k. Inr (S ''http://nas2net.cn:4003/OSS_Buckets/'' @ k)),
      mktemp = (\<lambda>n. S ''/tmp/tmp'' @ hex_of 8 n),
      uuid4 = (\<lambda>n. 0x0123abcd000040008000000000000000 + of_nat n)\<rparr>"

definition demo_world :: world where
  "demo_world =
     \<lparr>fetch_log = [], upload_log = [], files = (\<lambda>p. None), uuid_count = 0, tmp_count = 0\<rparr>"

text \<open>The digits of lower-case hexadecimal notation.\<close>

definition is_hex :: "nat \<Rightarrow> bool" where
  "is_hex c \<longleftrightarrow> (48 \<le> c \<and> c \<le> 57) \<or> (97 \<le> c \<and> c \<le> 102)"


text \<open>
  Every address that \<open>tasks\<close> holds has been given out. This holds in the initial state and
  is kept by \<open>update_task\<close> and by the runner.
\<close>

definition wf_state :: "app_state \<Rightarrow> bool" where
  "wf_state st \<longleftrightarrow> (\<forall>task_id a. tasks st task_id = Some a \<longrightarrow> a < next_addr st)"

text \<open>
  A text with one URL, the task id given to it, and a successful result for that URL.
\<close>

definition demo_text :: pystr where
  "demo_text = S ''see http://a.com/x.png''"

definition demo_success :: conv_result where
  "demo_success =
     \<lparr>original = S ''http://a.com/x.png'', converted = S ''http://oss/x_1.png'',
      status = S ''success'', message = None, error = None\<rparr>"

text \<open>
  The local variables of a runner that starts on \<open>demo_text\<close>, and a state whose only task,
  \<open>t2\<close>, has an empty list of records.
\<close>

definition demo_runner :: runner where
  "demo_runner = \<lparr>run_text = demo_text, url_mapping = (\<lambda>k. None)\<rparr>"


section \<open>Properties of URL extraction\<close>

text \<open>
  The dot is itself a class character, so the longest run ends before a character that is
  not a dot: the trailing groups of the pattern never take anything.
\<close>

lemma dot_groups_after_run: "dot_groups (dropWhile url_char s) = []"
proof (cases "dropWhile url_char s")
  case Nil
  show ?thesis by (subst dot_groups.simps) (simp only: Nil list.case)
next
  case (Cons c cs)
  then have "\<not> url_char c"
    using hd_dropWhile [of url_char s] by auto
  moreover have "url_char 46"
    by (simp add: url_char_def is_space_def S_def)
  ultimately have "c \<noteq> 46" by auto
  then show ?thesis by (subst dot_groups.simps) (simp only: Cons list.case if_False simp_thms)
qed

lemma dedup_loop_index:
  "dedup_loop xs seen acc =
     acc @ map (\<lambda>i. xs ! i)
             (filter (\<lambda>i. xs ! i \<notin> seen \<union> set (take i xs)) [0..<length xs])"
proof (induction xs arbitrary: seen acc)
  case Nil
  then show ?case by simp
next
  case (Cons x xs)
  have upt: "[0..<length (x # xs)] = 0 # map Suc [0..<length xs]"
    by (simp add: upt_conv_Cons map_Suc_upt del: upt_Suc)
  show ?case
    unfolding upt
    by (auto simp add: Cons.IH filter_map comp_def
          intro!: arg_cong[of _ _ "map ((!) xs)"] filter_cong)
qed

lemma dedup_loop_distinct:
  "distinct acc \<Longrightarrow> set acc \<subseteq> seen \<Longrightarrow> distinct (dedup_loop xs seen acc)"
proof (induction xs arbitrary: seen acc)
  case Nil
  then show ?case by simp
next
  case (Cons x xs)
  show ?case
  proof (cases "x \<in> seen")
    case True
    with Cons show ?thesis by simp
  next
    case False
    with Cons.prems have "distinct (acc @ [x])" and "set (acc @ [x]) \<subseteq> insert x seen"
      by auto
    then have "distinct (dedup_loop xs (insert x seen) (acc @ [x]))"
      by (rule Cons.IH)
    with False show ?thesis by simp
  qed
qed

lemma dedup_loop_set:
  "set (dedup_loop xs seen acc) = set acc \<union> (set xs - seen)"
  by (induction xs arbitrary: seen acc) auto

text \<open>
  C3. \<open>extract_urls\<close> is a function of the text alone. Its result is the list of matches of
  the pattern with every match kept at its first occurrence only, in the order of those first
  occurrences: the match at index \<open>i\<close> is kept exactly when it does not occur among the
  matches before \<open>i\<close>. The result has no duplicates, contains every match, and is empty for
  the empty text. On \<open>"visit http://a.com then http://a.com again"\<close> it is the single URL
  \<open>http://a.com\<close>.
\<close>

theorem extract_urls_dedup_first_occurrence:
  "extract_urls text =
     map (\<lambda>i. findall text ! i)
       (filter (\<lambda>i. findall text ! i \<notin> set (take i (findall text)))
          [0..<length (findall text)])
   \<and> distinct (extract_urls text)
   \<and> set (extract_urls text) = set (findall text)
   \<and> extract_urls [] = []
   \<and> extract_urls (S ''visit http://a.com then http://a.com again'') = [S ''http://a.com'']"
proof (intro conjI)
  show "extract_urls text =
     map (\<lambda>i. findall text ! i)
       (filter (\<lambda>i. findall text ! i \<notin> set (take i (findall text)))
          [0..<length (findall text)])"
    by (simp add: extract_urls_def dedup_loop_index)
  show "distinct (extract_urls text)"
    by (simp add: extract_urls_def dedup_loop_distinct)
  show "set (extract_urls text) = set (findall text)"
    by (simp add: extract_urls_def dedup_loop_set)
  show "extract_urls [] = []"
    by (simp add: extract_urls_def findall.simps)
  show "extract_urls (S ''visit http://a.com then http://a.com again'') = [S ''http://a.com'']"
    by (simp add: extract_urls_def findall.simps dot_groups.simps S_def match_here_def
          match_scheme_def url_char_def is_space_def)
qed

section \<open>Properties of the storage client\<close>

lemma hex_of_numeral:
  "hex_of (numeral k) x = hex_of (pred_numeral k) (x div 16) @ [hex_digit (x mod 16)]"
proof -
  have "hex_of (Suc (pred_numeral k)) x =
          hex_of (pred_numeral k) (x div 16) @ [hex_digit (x mod 16)]"
    by (rule hex_of.simps)
  then show ?thesis by (simp only: numeral_eq_Suc [symmetric])
qed

lemma demo_fields:
  "endpoint demo_env = S ''http://nas2net.cn:4003''"
  "url_path demo_env = demo_url_path"
  "unquote demo_env p = p"
  "s3_put demo_env k content = None"
  "presign demo_env k = Inr (S ''http://nas2net.cn:4003/OSS_Buckets/'' @ k)"
  by (simp_all add: demo_env_def)

lemma demo_hex8:
  "take 8 (uuid_hex (uuid4 demo_env 0)) = S ''0123abcd''"
  "take 8 (uuid_hex (uuid4 demo_env (Suc 0))) = S ''0123abcd''"
  by (simp_all add: demo_env_def uuid_hex_def hex_of_numeral hex_digit_def S_def)

lemmas demo_eval =
  upload_from_stream_def splitext_def rfind_def fresh_hex8_def store_object_def Let_def
  demo_world_def process_single_url_def py_in_def extract_filename_def
  header_def quote_chars_def py_strip_chars_def strip_where_def demo_url_path_def basename_def
  ext_map_def upload_file_def msg_already_oss_def demo_fields demo_hex8 cd_filename_def
  guess_ext_def S_def

lemma length_hex_of: "length (hex_of n x) = n"
  by (induction n arbitrary: x) auto

lemma hex_digit_is_hex: "d < 16 \<Longrightarrow> is_hex (hex_digit d)"
  by (auto simp: is_hex_def hex_digit_def)

lemma hex_of_is_hex: "list_all is_hex (hex_of n x)"
  by (induction n arbitrary: x) (auto simp: hex_digit_is_hex)

lemma hex8_shape:
  "length (take 8 (uuid_hex u)) = 8 \<and> list_all is_hex (take 8 (uuid_hex u))"
proof -
  have "list_all is_hex (uuid_hex u)"
    by (simp add: uuid_hex_def hex_of_is_hex)
  then have "list_all is_hex (take 8 (uuid_hex u))"
    by (auto simp: list_all_iff dest: in_set_takeD)
  then show ?thesis
    by (simp add: uuid_hex_def length_hex_of)
qed

lemma splitext_append: "fst (splitext p) @ snd (splitext p) = p"
  by (simp add: splitext_def Let_def)

text \<open>
  C4 as the code has it. A URL that contains the endpoint is answered at once with status
  \<open>skipped\<close>, the URL itself as the converted value, and the message \<open>msg_already_oss\<close>, which
  is the literal of the source (code points 24050, 26159, 32, 79, 83, 83, 32, 22320, 22336:
  ``already an OSS address'' in Chinese) and not the English phrase; the world is returned
  as it was, so no request and no upload has been sent.
\<close>

theorem process_single_url_skips_storage_url:
  assumes "py_in (endpoint e) url"
  shows "process_single_url e w url =
           (\<lparr>original = url, converted = url, status = S ''skipped'',
             message = Some [24050, 26159, 32, 79, 83, 83, 32, 22320, 22336],
             error = None\<rparr>, w)
         \<and> fetch_log (snd (process_single_url e w url)) = fetch_log w
         \<and> upload_log (snd (process_single_url e w url)) = upload_log w"
  using assms by (simp add: process_single_url_def msg_already_oss_def)

theorem process_single_url_skips_storage_url_witness:
  "py_in (endpoint demo_env) (S ''http://nas2net.cn:4003/OSS_Buckets/a.png'')
   \<and> status (fst (process_single_url demo_env demo_world
                     (S ''http://nas2net.cn:4003/OSS_Buckets/a.png''))) = S ''skipped''
   \<and> snd (process_single_url demo_env demo_world
             (S ''http://nas2net.cn:4003/OSS_Buckets/a.png'')) = demo_world"
proof -
  have h: "py_in (endpoint demo_env) (S ''http://nas2net.cn:4003/OSS_Buckets/a.png'')"
    by (simp add: py_in_def demo_env_def S_def)
  show ?thesis
    using h process_single_url_skips_storage_url
            [OF h, of demo_world]
    by simp
qed

text \<open>
  The claim as the specification words it, with the reason \<open>"already a storage URL"\<close>, fails:
  the message of the skipped result is another string.
\<close>

theorem skip_reason_counterexample:
  "message (fst (process_single_url demo_env demo_world
                   (S ''http://nas2net.cn:4003/OSS_Buckets/a.png'')))
     \<noteq> Some (S ''already a storage URL'')"
  by (simp add: process_single_url_def py_in_def demo_env_def msg_already_oss_def S_def)

text \<open>
  C8 as the code has it. The object key of an upload is the part of the file name before its
  extension, an underscore, the first eight hexadecimal digits of a freshly drawn identifier,
  and the extension (for \<open>upload_file\<close>, of the base name of the path). The eight digits are
  all that tells two uploads of one file name apart: their keys are equal exactly when the
  digits are, and nothing in the code checks that they differ.
\<close>

theorem upload_object_key:
  "upload_log (snd (upload_from_stream e w content filename)) =
     upload_log w @ [fst (splitext filename) @ S ''_''
                       @ take 8 (uuid_hex (uuid4 e (uuid_count w))) @ snd (splitext filename)]
   \<and> fst (splitext filename) @ snd (splitext filename) = filename
   \<and> length (take 8 (uuid_hex (uuid4 e (uuid_count w)))) = 8
   \<and> list_all is_hex (take 8 (uuid_hex (uuid4 e (uuid_count w))))
   \<and> (files w file_path = Some content \<longrightarrow>
        upload_log (snd (upload_file e w file_path None)) =
          upload_log w @ [fst (splitext (basename file_path)) @ S ''_''
                            @ take 8 (uuid_hex (uuid4 e (uuid_count w)))
                            @ snd (splitext (basename file_path))])
   \<and> upload_log (snd (upload_from_stream e (snd (upload_from_stream e w content filename))
                         content' filename)) =
       upload_log w @ [fst (splitext filename) @ S ''_''
                         @ take 8 (uuid_hex (uuid4 e (uuid_count w))) @ snd (splitext filename),
                       fst (splitext filename) @ S ''_''
                         @ take 8 (uuid_hex (uuid4 e (Suc (uuid_count w))))
                         @ snd (splitext filename)]
   \<and> ((fst (splitext filename) @ S ''_''
          @ take 8 (uuid_hex (uuid4 e (uuid_count w))) @ snd (splitext filename)
        = fst (splitext filename) @ S ''_''
          @ take 8 (uuid_hex (uuid4 e (Suc (uuid_count w)))) @ snd (splitext filename))
       \<longleftrightarrow> take 8 (uuid_hex (uuid4 e (uuid_count w)))
            = take 8 (uuid_hex (uuid4 e (Suc (uuid_count w)))))"
proof (intro conjI)
  have log: "\<And>w k c. upload_log (snd (store_object e w k c)) = upload_log w @ [k]"
    by (simp add: store_object_def Let_def split: option.splits sum.splits)
  have cnt: "\<And>w k c. uuid_count (snd (store_object e w k c)) = uuid_count w"
    by (simp add: store_object_def Let_def split: option.splits sum.splits)
  show first: "upload_log (snd (upload_from_stream e w content filename)) =
     upload_log w @ [fst (splitext filename) @ S ''_''
                       @ take 8 (uuid_hex (uuid4 e (uuid_count w))) @ snd (splitext filename)]"
    for w content
    by (simp add: upload_from_stream_def fresh_hex8_def log split: prod.splits)
  have count: "uuid_count (snd (upload_from_stream e w content filename)) = Suc (uuid_count w)"
    by (simp add: upload_from_stream_def fresh_hex8_def cnt split: prod.splits)
  show "upload_log (snd (upload_from_stream e (snd (upload_from_stream e w content filename))
                         content' filename)) =
       upload_log w @ [fst (splitext filename) @ S ''_''
                         @ take 8 (uuid_hex (uuid4 e (uuid_count w))) @ snd (splitext filename),
                       fst (splitext filename) @ S ''_''
                         @ take 8 (uuid_hex (uuid4 e (Suc (uuid_count w))))
                         @ snd (splitext filename)]"
    by (simp add: first count)
  show "fst (splitext filename) @ snd (splitext filename) = filename"
    by (rule splitext_append)
  show "length (take 8 (uuid_hex (uuid4 e (uuid_count w)))) = 8"
    using hex8_shape by blast
  show "list_all is_hex (take 8 (uuid_hex (uuid4 e (uuid_count w))))"
    using hex8_shape by blast
  show "files w file_path = Some content \<longrightarrow>
        upload_log (snd (upload_file e w file_path None)) =
          upload_log w @ [fst (splitext (basename file_path)) @ S ''_''
                            @ take 8 (uuid_hex (uuid4 e (uuid_count w)))
                            @ snd (splitext (basename file_path))]"
    by (simp add: upload_file_def fresh_hex8_def log Let_def split: prod.splits)
  show "(fst (splitext filename) @ S ''_''
          @ take 8 (uuid_hex (uuid4 e (uuid_count w))) @ snd (splitext filename)
        = fst (splitext filename) @ S ''_''
          @ take 8 (uuid_hex (uuid4 e (Suc (uuid_count w)))) @ snd (splitext filename))
       \<longleftrightarrow> take 8 (uuid_hex (uuid4 e (uuid_count w)))
            = take 8 (uuid_hex (uuid4 e (Suc (uuid_count w))))"
    by simp
qed

theorem upload_object_key_witness:
  "files (demo_world\<lparr>files := (\<lambda>p. None)(S ''/tmp/tmp0.txt'' \<mapsto> [])\<rparr>) (S ''/tmp/tmp0.txt'')
     = Some []
   \<and> upload_log (snd (upload_file demo_env
        (demo_world\<lparr>files := (\<lambda>p. None)(S ''/tmp/tmp0.txt'' \<mapsto> [])\<rparr>)
        (S ''/tmp/tmp0.txt'') None)) = [S ''tmp0_0123abcd.txt'']"
  using upload_object_key
          [of demo_env "demo_world\<lparr>files := (\<lambda>p. None)(S ''/tmp/tmp0.txt'' \<mapsto> [])\<rparr>"
              "[]" "S ''test.txt''" "S ''/tmp/tmp0.txt''" "[]"]
  by (simp add: demo_eval)

text \<open>
  The claim as the specification words it fails twice over. The suffix is not put directly
  behind the base name: the key of \<open>test.txt\<close> has an underscore before the digits. And two
  uploads of the empty file \<open>test.txt\<close>, for which two different identifiers are drawn that
  agree in their first eight digits, get the same key and the same URL.
\<close>

theorem same_filename_same_key_counterexample:
  "uuid4 demo_env 0 \<noteq> uuid4 demo_env (Suc 0)
   \<and> fst (upload_from_stream demo_env demo_world [] (S ''test.txt''))
       = UpOk (S ''http://nas2net.cn:4003/OSS_Buckets/test_0123abcd.txt'')
              (S ''test_0123abcd.txt'')
   \<and> fst (upload_from_stream demo_env
            (snd (upload_from_stream demo_env demo_world [] (S ''test.txt'')))
            [] (S ''test.txt''))
       = UpOk (S ''http://nas2net.cn:4003/OSS_Buckets/test_0123abcd.txt'')
              (S ''test_0123abcd.txt'')
   \<and> S ''test_0123abcd.txt'' \<noteq> S ''test0123abcd.txt''"
proof (intro conjI)
  show "uuid4 demo_env 0 \<noteq> uuid4 demo_env (Suc 0)"
    by (simp add: demo_env_def)
  show "fst (upload_from_stream demo_env demo_world [] (S ''test.txt''))
       = UpOk (S ''http://nas2net.cn:4003/OSS_Buckets/test_0123abcd.txt'')
              (S ''test_0123abcd.txt'')"
    by (simp add: demo_eval)
  show "fst (upload_from_stream demo_env
            (snd (upload_from_stream demo_env demo_world [] (S ''test.txt'')))
            [] (S ''test.txt''))
       = UpOk (S ''http://nas2net.cn:4003/OSS_Buckets/test_0123abcd.txt'')
              (S ''test_0123abcd.txt'')"
    by (simp add: demo_eval)
  show "S ''test_0123abcd.txt'' \<noteq> S ''test0123abcd.txt''"
    by (simp add: S_def)
qed











section \<open>Properties of the web application\<close>

lemma fold_result_tasks:
  "tasks (snd (fold_result st task_id orig new_url st_name st_text conv_text)) = tasks st"
proof -
  obtain a st0 where st0:
    "(case tasks st task_id of Some a \<Rightarrow> (a, st) | None \<Rightarrow> alloc st empty_dict) = (a, st0)"
    by (cases "case tasks st task_id of Some a \<Rightarrow> (a, st) | None \<Rightarrow> alloc st empty_dict")
  then have t0: "tasks st0 = tasks st"
    by (auto simp: alloc_def split: option.splits)
  obtain found l1 where f:
    "find_and_update (urls_or_empty (heap st0 a)) orig new_url st_name st_text = (found, l1)"
    by (cases "find_and_update (urls_or_empty (heap st0 a)) orig new_url st_name st_text")
  show ?thesis
    by (simp add: fold_result_def st0 f t0 Let_def split: sum.splits)
qed

lemma fold_result_str_head:
  assumes "tasks st task_id = Some a" and "urls (heap st a) = Some (UrlStr u # rest)"
  shows "fold_result st task_id orig new_url st_name st_text conv_text
           = (Some AttributeError, st)"
proof -
  have "(heap st a)\<lparr>urls := Some (UrlStr u # rest)\<rparr> = heap st a"
    using assms(2) by simp
  then have "st\<lparr>heap := (heap st)(a := (heap st a)\<lparr>urls := Some (UrlStr u # rest)\<rparr>)\<rparr> = st"
    by simp
  with assms show ?thesis
    by (simp add: fold_result_def urls_or_empty_def)
qed

lemma update_task_fresh:
  assumes "tasks st task_id = None"
  shows "lookup_task (update_task st task_id kwargs) task_id =
           Some (dict_update \<lparr>urls = Some [], total = Some 0, completed = Some 0,
                              converted_text = Some []\<rparr> kwargs)"
  using assms by (simp add: update_task_def alloc_def lookup_task_def Let_def)

lemma update_task_bound:
  "\<exists>a. tasks (update_task st task_id kwargs) task_id = Some a
       \<and> heap (update_task st task_id kwargs) a =
           dict_update (case tasks st task_id of
                          None \<Rightarrow> \<lparr>urls = Some [], total = Some 0, completed = Some 0,
                                    converted_text = Some []\<rparr>
                        | Some b \<Rightarrow> heap st b) kwargs"
  by (cases "tasks st task_id") (simp_all add: update_task_def alloc_def Let_def)

lemma convert_url_started:
  assumes "py_strip text \<noteq> []" and "extract_urls text \<noteq> []"
  shows "convert_url st new_id (Text text) =
           (Started new_id (int (length (extract_urls text))) (extract_urls text) text,
            update_task st new_id
              \<lparr>urls = Some (map UrlStr (extract_urls text)),
               total = Some (int (length (extract_urls text))),
               completed = None, converted_text = Some text\<rparr>,
            Some (new_id, text))"
  using assms by (simp add: convert_url_def Let_def)

lemma created_task_crashes_runner:
  assumes "py_strip text \<noteq> []" and "extract_urls text \<noteq> []"
    and "st1 = fst (snd (convert_url st new_id (Text text)))"
  shows "runner_step new_id (st1, r) result =
           (Some AttributeError, st1,
            if status result = S ''success''
            then r\<lparr>url_mapping := (url_mapping r)(original result \<mapsto> converted result),
                   run_text := py_replace (original result) (converted result) (run_text r)\<rparr>
            else r)"
proof -
  obtain u us where us: "extract_urls text = u # us"
    using assms(2) by (cases "extract_urls text") auto
  let ?kw = "\<lparr>urls = Some (map UrlStr (extract_urls text)),
              total = Some (int (length (extract_urls text))),
              completed = None, converted_text = Some text\<rparr>"
  have st1: "st1 = update_task st new_id ?kw"
    using assms by (simp add: convert_url_started)
  obtain a where a: "tasks st1 new_id = Some a"
    and h: "heap st1 a = dict_update (case tasks st new_id of
                          None \<Rightarrow> \<lparr>urls = Some [], total = Some 0, completed = Some 0,
                                    converted_text = Some []\<rparr>
                        | Some b \<Rightarrow> heap st b) ?kw"
    using update_task_bound [of st new_id ?kw] st1 by auto
  have "urls (heap st1 a) = Some (UrlStr u # map UrlStr us)"
    by (simp add: h dict_update_def us)
  with a have "\<And>orig new_url st_name st_text conv_text.
      fold_result st1 new_id orig new_url st_name st_text conv_text = (Some AttributeError, st1)"
    by (rule fold_result_str_head)
  then show ?thesis
    by (simp add: runner_step_def Let_def)
qed

lemma run_loop_crash:
  assumes "\<And>r result. \<exists>r'. runner_step task_id (st1, r) result = (Some AttributeError, st1, r')"
  shows "fst (snd (run_loop task_id (st1, r) results)) = st1
         \<and> (results \<noteq> [] \<longrightarrow> fst (run_loop task_id (st1, r) results) = Some AttributeError)"
proof (cases results)
  case Nil
  then show ?thesis by simp
next
  case (Cons result rest)
  from assms obtain r' where "runner_step task_id (st1, r) result = (Some AttributeError, st1, r')"
    by blast
  with Cons show ?thesis by simp
qed

lemma demo_text_facts:
  "py_strip demo_text \<noteq> []"
  "extract_urls demo_text = [S ''http://a.com/x.png'']"
  "py_replace (S ''http://a.com/x.png'') (S ''http://oss/x_1.png'') demo_text
     = S ''see http://oss/x_1.png''"
  by (simp_all add: demo_text_def py_strip_def strip_where_def extract_urls_def findall.simps
        dot_groups.simps py_replace.simps match_here_def match_scheme_def url_char_def
        is_space_def S_def)

text \<open>
  C1, as the code behaves. A task made by \<open>convert_url\<close> for a text with at least one URL
  holds the text as its \<open>converted_text\<close>. Whatever the first result of the stream is, also a
  \<open>success\<close> with a storage URL, the runner raises \<open>AttributeError\<close> while it looks for the
  record of the URL, because the list of the task holds plain strings; the state is then
  what \<open>convert_url\<close> left, so the \<open>converted_text\<close> of the task is still the submitted text.
  The text with the URL replaced exists in the local variable of the runner only.
\<close>

theorem runner_never_stores_replacement:
  assumes "py_strip text \<noteq> []" and "extract_urls text \<noteq> []"
  shows "converted_text (get_task (fst (snd (convert_url st new_id (Text text)))) new_id)
           = Some text
         \<and> run_conversion new_id text (fst (snd (convert_url st new_id (Text text))))
             (result # results)
           = (Some AttributeError, fst (snd (convert_url st new_id (Text text))),
              if status result = S ''success''
              then \<lparr>run_text = py_replace (original result) (converted result) text,
                    url_mapping = (\<lambda>k. None)(original result \<mapsto> converted result)\<rparr>
              else \<lparr>run_text = text, url_mapping = (\<lambda>k. None)\<rparr>)"
proof
  let ?kw = "\<lparr>urls = Some (map UrlStr (extract_urls text)),
              total = Some (int (length (extract_urls text))),
              completed = None, converted_text = Some text\<rparr>"
  obtain a where "tasks (update_task st new_id ?kw) new_id = Some a"
    and "heap (update_task st new_id ?kw) a = dict_update (case tasks st new_id of
                          None \<Rightarrow> \<lparr>urls = Some [], total = Some 0, completed = Some 0,
                                    converted_text = Some []\<rparr>
                        | Some b \<Rightarrow> heap st b) ?kw"
    using update_task_bound [of st new_id ?kw] by auto
  then have "converted_text (get_task (update_task st new_id ?kw) new_id) = Some text"
    by (simp add: get_task_def lookup_task_def dict_update_def)
  then show "converted_text (get_task (fst (snd (convert_url st new_id (Text text)))) new_id)
               = Some text"
    using assms by (simp add: convert_url_started)
next
  show "run_conversion new_id text (fst (snd (convert_url st new_id (Text text))))
             (result # results)
           = (Some AttributeError, fst (snd (convert_url st new_id (Text text))),
              if status result = S ''success''
              then \<lparr>run_text = py_replace (original result) (converted result) text,
                    url_mapping = (\<lambda>k. None)(original result \<mapsto> converted result)\<rparr>
              else \<lparr>run_text = text, url_mapping = (\<lambda>k. None)\<rparr>)"
    using created_task_crashes_runner [OF assms refl]
    by (simp add: run_conversion_def)
qed

theorem runner_never_stores_replacement_witness:
  "py_strip demo_text \<noteq> [] \<and> extract_urls demo_text \<noteq> []
   \<and> fst (run_conversion (S ''t1'') demo_text
            (fst (snd (convert_url init_state (S ''t1'') (Text demo_text)))) [demo_success])
       = Some AttributeError
   \<and> converted_text (get_task
         (fst (snd (run_conversion (S ''t1'') demo_text
            (fst (snd (convert_url init_state (S ''t1'') (Text demo_text)))) [demo_success])))
         (S ''t1''))
       = Some (S ''see http://a.com/x.png'')
   \<and> run_text (snd (snd (run_conversion (S ''t1'') demo_text
            (fst (snd (convert_url init_state (S ''t1'') (Text demo_text)))) [demo_success])))
       = S ''see http://oss/x_1.png''"
proof -
  have h1: "py_strip demo_text \<noteq> []" and h2: "extract_urls demo_text \<noteq> []"
    by (simp_all add: demo_text_facts)
  have success: "status demo_success = S ''success''"
    "original demo_success = S ''http://a.com/x.png''"
    "converted demo_success = S ''http://oss/x_1.png''"
    by (simp_all add: demo_success_def)
  show ?thesis
    using runner_never_stores_replacement
            [OF h1 h2, of init_state "S ''t1''" demo_success "[]"]
    by (simp add: h1 h2 success demo_text_facts(3)) (simp add: demo_text_def)
qed

text \<open>
  C2, as the code behaves. The task that \<open>convert_url\<close> makes under a fresh id has the
  extracted URLs as plain strings in its list, no dict with a status among them, and
  \<open>completed = 0\<close> below \<open>total\<close>. Whatever results the stream delivers, the runner leaves the
  state as it found it, and it raises \<open>AttributeError\<close> at the first result: no entry ever
  gets a status and \<open>completed\<close> never moves towards \<open>total\<close>.
\<close>

theorem created_task_never_progresses:
  assumes "py_strip text \<noteq> []" and "extract_urls text \<noteq> []" and "tasks st new_id = None"
  shows "lookup_task (fst (snd (convert_url st new_id (Text text)))) new_id =
           Some \<lparr>urls = Some (map UrlStr (extract_urls text)),
                 total = Some (int (length (extract_urls text))),
                 completed = Some 0, converted_text = Some text\<rparr>
         \<and> (0::int) < int (length (extract_urls text))
         \<and> fst (snd (run_conversion new_id text
                       (fst (snd (convert_url st new_id (Text text)))) results))
             = fst (snd (convert_url st new_id (Text text)))
         \<and> (results \<noteq> [] \<longrightarrow>
              fst (run_conversion new_id text
                     (fst (snd (convert_url st new_id (Text text)))) results)
                = Some AttributeError)"
proof (intro conjI)
  show "lookup_task (fst (snd (convert_url st new_id (Text text)))) new_id =
           Some \<lparr>urls = Some (map UrlStr (extract_urls text)),
                 total = Some (int (length (extract_urls text))),
                 completed = Some 0, converted_text = Some text\<rparr>"
    using assms by (simp add: convert_url_started update_task_fresh dict_update_def)
  show "(0::int) < int (length (extract_urls text))"
    using assms(2) by simp
  have crash: "\<And>r result. \<exists>r'.
      runner_step new_id (fst (snd (convert_url st new_id (Text text))), r) result
        = (Some AttributeError, fst (snd (convert_url st new_id (Text text))), r')"
    using created_task_crashes_runner [OF assms(1,2) refl] by blast
  show "fst (snd (run_conversion new_id text
                       (fst (snd (convert_url st new_id (Text text)))) results))
             = fst (snd (convert_url st new_id (Text text)))"
    unfolding run_conversion_def using run_loop_crash [OF crash] by blast
  show "results \<noteq> [] \<longrightarrow>
              fst (run_conversion new_id text
                     (fst (snd (convert_url st new_id (Text text)))) results)
                = Some AttributeError"
    unfolding run_conversion_def using run_loop_crash [OF crash] by blast
qed

theorem created_task_never_progresses_witness:
  "py_strip demo_text \<noteq> [] \<and> extract_urls demo_text \<noteq> []
   \<and> tasks init_state (S ''t1'') = None
   \<and> lookup_task
        (fst (snd (run_conversion (S ''t1'') demo_text
            (fst (snd (convert_url init_state (S ''t1'') (Text demo_text)))) [demo_success])))
        (S ''t1'')
       = Some \<lparr>urls = Some [UrlStr (S ''http://a.com/x.png'')], total = Some 1,
               completed = Some 0, converted_text = Some demo_text\<rparr>
   \<and> fst (run_conversion (S ''t1'') demo_text
            (fst (snd (convert_url init_state (S ''t1'') (Text demo_text)))) [demo_success])
       = Some AttributeError"
proof -
  have h1: "py_strip demo_text \<noteq> []" and h2: "extract_urls demo_text \<noteq> []"
    by (simp_all add: demo_text_facts)
  have h3: "tasks init_state (S ''t1'') = None"
    by (simp add: init_state_def)
  show ?thesis
    using created_task_never_progresses
            [OF h1 h2 h3, of "[demo_success]"]
    by (simp add: h1 h2 h3 demo_text_facts(2))
qed






lemma find_and_update_not_found:
  "find_and_update l orig new_url st_name st_text = (Inr False, l') \<Longrightarrow> l' = l"
proof (induction l arbitrary: l')
  case Nil
  then show ?case by simp
next
  case (Cons x l)
  show ?case
  proof (cases x)
    case (UrlStr s)
    with Cons.prems show ?thesis by simp
  next
    case (UrlInfo i)
    obtain r rest' where rec: "find_and_update l orig new_url st_name st_text = (r, rest')"
      by (cases "find_and_update l orig new_url st_name st_text")
    with Cons.prems UrlInfo have "original_url i \<noteq> orig" and "r = Inr False"
      and "l' = UrlInfo i # rest'"
      by (auto split: if_splits)
    with rec Cons.IH [of rest'] UrlInfo show ?thesis by simp
  qed
qed





lemma runner_step_tasks:
  "tasks (fst (snd (runner_step task_id (st, r) result))) = tasks st"
proof -
  let ?r1 = "if status result = S ''success''
             then r\<lparr>url_mapping := (url_mapping r)(original result \<mapsto> converted result),
                    run_text := py_replace (original result) (converted result) (run_text r)\<rparr>
             else r"
  let ?f = "fold_result st task_id (original result) (converted result) (status result)
              (status_text_of (status result)) (run_text ?r1)"
  have "tasks (snd ?f) = tasks st"
    by (rule fold_result_tasks)
  moreover have "fst (snd (runner_step task_id (st, r) result)) = snd ?f"
    by (simp add: runner_step_def Let_def split: prod.splits)
  ultimately show ?thesis by simp
qed

lemma run_loop_tasks:
  "tasks (fst (snd (run_loop task_id (st, r) results))) = tasks st"
proof (induction results arbitrary: st r)
  case Nil
  show ?case by simp
next
  case (Cons result results)
  obtain err st' r' where step: "runner_step task_id (st, r) result = (err, st', r')"
    by (cases "runner_step task_id (st, r) result")
  then have t: "tasks st' = tasks st"
    using runner_step_tasks [of task_id st r result] by simp
  show ?case
  proof (cases err)
    case None
    with step t Cons.IH [of st' r'] show ?thesis by simp
  next
    case (Some e)
    with step t show ?thesis by simp
  qed
qed

lemma fold_result_absent:
  assumes "tasks st task_id = None"
  shows "fold_result st task_id orig new_url st_name st_text conv_text =
           (None,
            st\<lparr>heap := (heap st)(next_addr st :=
                   \<lparr>urls = Some [UrlInfo \<lparr>original_url = orig, oss_url = new_url,
                                          url_status = st_name, status_text = st_text\<rparr>],
                    total = None,
                    completed = Some (if terminal st_name then 1 else 0),
                    converted_text = Some conv_text\<rparr>),
               next_addr := Suc (next_addr st)\<rparr>)"
  using assms
  by (simp add: fold_result_def alloc_def empty_dict_def urls_or_empty_def Let_def)

lemma wf_init_state: "wf_state init_state"
  by (simp add: wf_state_def init_state_def)

lemma wf_update_task: "wf_state st \<Longrightarrow> wf_state (update_task st task_id kwargs)"
  by (cases "tasks st task_id")
     (auto simp: wf_state_def update_task_def alloc_def Let_def less_Suc_eq)

lemma fold_result_next_addr:
  "next_addr st \<le> next_addr (snd (fold_result st task_id orig new_url st_name st_text conv_text))"
proof -
  obtain a st0 where st0:
    "(case tasks st task_id of Some a \<Rightarrow> (a, st) | None \<Rightarrow> alloc st empty_dict) = (a, st0)"
    by (cases "case tasks st task_id of Some a \<Rightarrow> (a, st) | None \<Rightarrow> alloc st empty_dict")
  then have n0: "next_addr st \<le> next_addr st0"
    by (auto simp: alloc_def split: option.splits)
  obtain found l1 where f:
    "find_and_update (urls_or_empty (heap st0 a)) orig new_url st_name st_text = (found, l1)"
    by (cases "find_and_update (urls_or_empty (heap st0 a)) orig new_url st_name st_text")
  show ?thesis
    using n0 by (simp add: fold_result_def st0 f Let_def split: sum.splits)
qed

lemma wf_fold_result:
  assumes "wf_state st"
  shows "wf_state (snd (fold_result st task_id orig new_url st_name st_text conv_text))"
  unfolding wf_state_def
proof (intro allI impI)
  fix k a
  assume "tasks (snd (fold_result st task_id orig new_url st_name st_text conv_text)) k = Some a"
  then have "tasks st k = Some a"
    by (simp add: fold_result_tasks)
  with assms have "a < next_addr st"
    by (auto simp: wf_state_def)
  with fold_result_next_addr [of st task_id orig new_url st_name st_text conv_text]
  show "a < next_addr (snd (fold_result st task_id orig new_url st_name st_text conv_text))"
    by simp
qed

lemma convert_url_dom:
  "dom (tasks (fst (snd (convert_url st new_id req)))) \<subseteq> insert new_id (dom (tasks st))"
proof (cases req)
  case NoText
  then show ?thesis by (auto simp: convert_url_def)
next
  case (Text body)
  have "dom (tasks (update_task st new_id kw)) \<subseteq> insert new_id (dom (tasks st))" for kw
    by (cases "tasks st new_id") (auto simp: update_task_def alloc_def Let_def split: if_splits)
  with Text show ?thesis
    by (auto simp: convert_url_def Let_def)
qed

text \<open>
  C10. No turn of the runner changes \<open>tasks\<close>, and so no run of the runner does. When the
  task id is not in \<open>tasks\<close>, the turn raises nothing; the dict it fills is a new one, at the
  address \<open>next_addr\<close>, which no task id refers to, and every dict that existed before is as it
  was: a reader finds under every task id what was there before, and the result is lost. Only
  \<open>convert_url\<close> adds a task id, and only the one it was given.
\<close>

theorem runner_never_adds_task:
  "tasks (fst (snd (runner_step task_id (st, r) result))) = tasks st
   \<and> tasks (fst (snd (run_conversion task_id text st results))) = tasks st
   \<and> (tasks st task_id = None \<longrightarrow>
        fst (runner_step task_id (st, r) result) = None
        \<and> (\<forall>a. a \<noteq> next_addr st \<longrightarrow>
              heap (fst (snd (runner_step task_id (st, r) result))) a = heap st a)
        \<and> urls (heap (fst (snd (runner_step task_id (st, r) result))) (next_addr st))
            = Some [UrlInfo \<lparr>original_url = original result, oss_url = converted result,
                             url_status = status result,
                             status_text = status_text_of (status result)\<rparr>])
   \<and> (tasks st task_id = None \<and> wf_state st \<longrightarrow>
        (\<forall>k. lookup_task (fst (snd (runner_step task_id (st, r) result))) k
               = lookup_task st k))
   \<and> dom (tasks (fst (snd (convert_url st new_id req)))) \<subseteq> insert new_id (dom (tasks st))"
proof (intro conjI impI allI)
  show "tasks (fst (snd (runner_step task_id (st, r) result))) = tasks st"
    by (rule runner_step_tasks)
  show "tasks (fst (snd (run_conversion task_id text st results))) = tasks st"
    by (simp add: run_conversion_def run_loop_tasks)
  show "dom (tasks (fst (snd (convert_url st new_id req)))) \<subseteq> insert new_id (dom (tasks st))"
    by (rule convert_url_dom)
next
  assume "tasks st task_id = None"
  then show "fst (runner_step task_id (st, r) result) = None"
    by (simp add: runner_step_def fold_result_absent Let_def)
next
  fix a
  assume "tasks st task_id = None" and "a \<noteq> next_addr st"
  then show "heap (fst (snd (runner_step task_id (st, r) result))) a = heap st a"
    by (simp add: runner_step_def fold_result_absent Let_def)
next
  assume "tasks st task_id = None"
  then show "urls (heap (fst (snd (runner_step task_id (st, r) result))) (next_addr st))
            = Some [UrlInfo \<lparr>original_url = original result, oss_url = converted result,
                             url_status = status result,
                             status_text = status_text_of (status result)\<rparr>]"
    by (simp add: runner_step_def fold_result_absent Let_def)
next
  fix k
  assume h: "tasks st task_id = None \<and> wf_state st"
  show "lookup_task (fst (snd (runner_step task_id (st, r) result))) k = lookup_task st k"
  proof (cases "tasks st k")
    case None
    with h show ?thesis
      by (simp add: runner_step_def fold_result_absent Let_def lookup_task_def)
  next
    case (Some b)
    with h have "b \<noteq> next_addr st"
      by (auto simp: wf_state_def)
    with h Some show ?thesis
      by (simp add: runner_step_def fold_result_absent Let_def lookup_task_def)
  qed
qed

theorem runner_never_adds_task_witness:
  "tasks init_state (S ''gone'') = None \<and> wf_state init_state
   \<and> fst (runner_step (S ''gone'') (init_state, demo_runner) demo_success) = None
   \<and> tasks (fst (snd (runner_step (S ''gone'') (init_state, demo_runner) demo_success)))
        (S ''gone'') = None
   \<and> lookup_task (fst (snd (runner_step (S ''gone'') (init_state, demo_runner) demo_success)))
        (S ''gone'') = None
   \<and> heap (fst (snd (runner_step (S ''gone'') (init_state, demo_runner) demo_success))) 1
       = heap init_state 1"
proof -
  have h1: "tasks init_state (S ''gone'') = None"
    by (simp add: init_state_def)
  have h2: "next_addr init_state = 0"
    by (simp add: init_state_def)
  show ?thesis
    using runner_never_adds_task
            [of "S ''gone''" init_state demo_runner demo_success]
          h1 wf_init_state
    by (simp add: h2 lookup_task_def)
qed

end
